theory Spec2Isabelle
  imports Main
begin

section \<open>The object-document mapper of abiflows (\<open>abiflows/core/models.py\<close>)\<close>

text \<open>
  The module maps the nodes of an AbiPy flow (tasks, works, the flow itself) to
  mongoengine documents and stores the files they produced in GridFS. The embedding
  follows the module class by class. Exceptions are values of \<open>error\<close>; a function
  that can raise returns \<open>error + 'a\<close>, with \<open>Inl\<close> for the exception.
\<close>

datatype error =
    AttributeError
  | KeyError
  | IndexError
  | TypeError
  | ValueError
  | GridFSError
  | RecursionError

subsection \<open>Dictionaries stored in \<open>DictField\<close>s\<close>

text \<open>
  The values of \<open>as_dict()\<close>: nested key-value data. The order of the keys is kept,
  as the dictionary is only stored and compared.
\<close>

datatype json =
    JNull
  | JBool bool
  | JInt int
  | JStr string
  | JList "json list"
  | JDict "(string \<times> json) list"

subsection \<open>The AbiPy objects the conversions read\<close>

text \<open>
  The conversions read a node through a small set of attributes. \<open>abi_class_name\<close> is
  \<open>node.__class__.__name__\<close>; \<open>abi_status\<close> is the status object, whose string form is
  taken with the \<open>str\<close> passed to the conversion; \<open>abi_has_abiext\<close> is
  \<open>node.outdir.has_abiext\<close>, which returns the path of the file of the output directory
  with the given extension, or the empty string; \<open>abi_output_file\<close> is \<open>None\<close> for a node
  without the attribute \<open>output_file\<close> (\<open>hasattr\<close> is false) and otherwise holds what
  \<open>node.output_file.read()\<close> returns.
\<close>

record 's abi_node =
  abi_class_name :: string
  abi_node_id :: int
  abi_status :: 's
  abi_workdir :: string
  abi_has_abiext :: "string \<Rightarrow> string"
  abi_output_file :: "string option"

text \<open>
  \<open>task.input\<close>: \<open>inp_as_dict\<close> is \<open>input.as_dict()\<close>, \<open>inp_str\<close> is \<open>str(input)\<close>,
  \<open>inp_structure\<close> is \<open>input.structure.as_dict()\<close>.
\<close>

record abinit_input =
  inp_as_dict :: json
  inp_str :: string
  inp_structure :: json

text \<open>The object returned by \<open>task.get_event_report()\<close>.\<close>

record event_report =
  rep_num_errors :: int
  rep_num_comments :: int
  rep_num_warnings :: int
  rep_as_dict :: json

text \<open>
  A task. \<open>abi_event_report\<close> is \<open>None\<close> when \<open>get_event_report()\<close> returns \<open>None\<close>.
  \<open>abi_open_gsr\<close> is \<open>None\<close> for a task without the attribute \<open>open_gsr\<close>; otherwise it
  holds the outcome of \<open>with task.open_gsr() as gsr: gsr.structure.as_dict()\<close>, an
  exception or the dictionary.
\<close>

record 's abi_task = "'s abi_node" +
  abi_input :: abinit_input
  abi_event_report :: "event_report option"
  abi_open_gsr :: "(error + json) option"

text \<open>Iterating a work yields its tasks, iterating a flow yields its works.\<close>

record 's abi_work = "'s abi_node" +
  abi_tasks :: "'s abi_task list"

record 's abi_flow = "'s abi_node" +
  abi_works :: "'s abi_work list"

subsection \<open>\<open>MongoNode\<close> and \<open>MongoEmbeddedNode\<close>\<close>

text \<open>
  A field of a document holds \<open>None\<close> until it is assigned: the constructor
  \<open>cls(**kwargs)\<close> sets the fields it is given and leaves the others unset.
\<close>

record MongoNode =
  node_id :: "int option"
  node_class :: "string option"
  status :: "string option"
  workdir :: "string option"

record MongoEmbeddedNode =
  node_id :: "int option"
  node_class :: "string option"
  status :: "string option"
  workdir :: "string option"

text \<open>
  \<open>from_node\<close> is a class method: \<open>cls\<close> is the class it is called on, so that
  \<open>MongoTask.from_node\<close> builds a \<open>MongoTask\<close>. The argument \<open>unset\<close> is the part of the
  record that \<open>cls\<close> adds to the node, with no field assigned.
\<close>

definition MongoNode_from_node ::
  "('s \<Rightarrow> string) \<Rightarrow> 'z \<Rightarrow> ('s, 'm) abi_node_scheme \<Rightarrow> 'z MongoNode_scheme" where
  "MongoNode_from_node str unset node =
     \<lparr> MongoNode.node_id = Some (abi_node_id node),
       MongoNode.node_class = Some (abi_class_name node),
       MongoNode.status = Some (str (abi_status node)),
       MongoNode.workdir = Some (abi_workdir node),
       \<dots> = unset \<rparr>"

definition MongoEmbeddedNode_from_node ::
  "('s \<Rightarrow> string) \<Rightarrow> 'z \<Rightarrow> ('s, 'm) abi_node_scheme \<Rightarrow> 'z MongoEmbeddedNode_scheme" where
  "MongoEmbeddedNode_from_node str unset node =
     \<lparr> MongoEmbeddedNode.node_id = Some (abi_node_id node),
       MongoEmbeddedNode.node_class = Some (abi_class_name node),
       MongoEmbeddedNode.status = Some (str (abi_status node)),
       MongoEmbeddedNode.workdir = Some (abi_workdir node),
       \<dots> = unset \<rparr>"

subsection \<open>GridFS and \<open>MongoFiles\<close>\<close>

text \<open>
  GridFS holds the stored files under identifiers. \<open>GridFSProxy_put\<close> is \<open>proxy.put\<close>:
  it stores the data as a new file and returns the identifier the proxy then refers to.
\<close>

record gridfs =
  grid_files :: "nat \<rightharpoonup> string"
  grid_next :: nat

definition GridFSProxy_put :: "gridfs \<Rightarrow> string \<Rightarrow> nat \<times> gridfs" where
  "GridFSProxy_put g data =
     (grid_next g,
      g\<lparr> grid_files := (grid_files g)(grid_next g \<mapsto> data),
         grid_next := Suc (grid_next g) \<rparr>)"

text \<open>
  The fields of \<open>MongoFiles\<close> in the order of the class body, each an \<open>AbiFileField\<close>
  with its \<open>abiext\<close> and \<open>abiform\<close>. The class has no other field, so the test
  \<open>isinstance(field, AbiFileField)\<close> of the two loops holds for every entry.
\<close>

definition AbiFileFields :: "(string \<times> string \<times> string) list" where
  "AbiFileFields =
     [(''gsr'', ''GSR.nc'', ''b''),
      (''hist'', ''HIST'', ''b''),
      (''phbst'', ''PHBST.nc'', ''b''),
      (''phdos'', ''PHDOS.nc'', ''b''),
      (''sigres'', ''SIGRES.nc'', ''b''),
      (''mdf'', ''MDF.nc'', ''b''),
      (''ddb'', ''DDB'', ''t''),
      (''output_file'', ''abo'', ''t'')]"

text \<open>
  A \<open>MongoFiles\<close> document: the code reaches its fields by name only (\<open>getattr\<close>, the
  loop over \<open>_fields\<close>), so the document is a map from field names to the identifier of
  the stored file. A field without a stored file is \<open>None\<close>, the value
  \<open>AbiFileField.to_python\<close> returns for it.
\<close>

type_synonym MongoFiles = "string \<rightharpoonup> nat"

text \<open>\<open>str.replace(old, new)\<close> and \<open>str.lower()\<close> (on ASCII letters).\<close>

function str_replace :: "string \<Rightarrow> string \<Rightarrow> string \<Rightarrow> string" where
  "str_replace old new [] = (if old = [] then new else [])"
| "str_replace old new (c # cs) =
     (if old = [] then new @ c # str_replace old new cs
      else if take (length old) (c # cs) = old
        then new @ str_replace old new (drop (length old) (c # cs))
      else c # str_replace old new cs)"
  by pat_completeness auto
termination
  by (relation "measure (\<lambda>(old, new, s). length s)") auto

definition lower_char :: "char \<Rightarrow> char" where
  "lower_char c =
     (let n = (of_char c :: nat) in if 65 \<le> n \<and> n \<le> 90 then char_of (n + 32) else c)"

definition str_lower :: "string \<Rightarrow> string" where
  "str_lower s = map lower_char s"

text \<open>The name the loop derives from an extension: \<open>ext.replace(".nc", "").lower()\<close>.\<close>

definition abi_fname :: "string \<Rightarrow> string" where
  "abi_fname ext = str_lower (str_replace ''.nc'' [] ext)"

text \<open>
  The loop of \<open>MongoFiles.from_node\<close> over the fields. \<open>fs\<close> is the file system: the
  content \<open>open(path)\<close> gives. \<open>getattr(new, fname)\<close> raises \<open>AttributeError\<close> when
  \<open>fname\<close> is not a field of the document.
\<close>

fun from_node_loop ::
  "(string \<Rightarrow> string) \<Rightarrow> (string \<Rightarrow> string) \<Rightarrow> (string \<times> string \<times> string) list
   \<Rightarrow> MongoFiles \<times> gridfs \<Rightarrow> error + MongoFiles \<times> gridfs" where
  "from_node_loop fs has_abiext [] st = Inr st"
| "from_node_loop fs has_abiext ((key, ext, form) # rest) (new, g) =
     (let path = has_abiext ext in
      if path \<noteq> [] then
        (let fname = abi_fname ext in
         if fname \<in> set (map fst AbiFileFields) then
           (let (i, g') = GridFSProxy_put g (fs path)
            in from_node_loop fs has_abiext rest (new(fname \<mapsto> i), g'))
         else Inl AttributeError)
      else from_node_loop fs has_abiext rest (new, g))"

text \<open>
  \<open>MongoFiles.from_node\<close>: the loop, then the main output, which is read from
  \<open>node.output_file\<close> when the node has that attribute.
\<close>

definition MongoFiles_from_node ::
  "(string \<Rightarrow> string) \<Rightarrow> ('s, 'm) abi_node_scheme \<Rightarrow> gridfs \<Rightarrow> error + MongoFiles \<times> gridfs" where
  "MongoFiles_from_node fs node g =
     (case from_node_loop fs (abi_has_abiext node) AbiFileFields (Map.empty, g) of
        Inl e \<Rightarrow> Inl e
      | Inr (new, g1) \<Rightarrow>
          (case abi_output_file node of
             None \<Rightarrow> Inr (new, g1)
           | Some data \<Rightarrow>
               (let (i, g2) = GridFSProxy_put g1 data
                in Inr (new(''output_file'' \<mapsto> i), g2))))"

text \<open>The content of the stored file a field of the document refers to.\<close>

definition slot_data :: "gridfs \<Rightarrow> MongoFiles \<Rightarrow> string \<Rightarrow> string option" where
  "slot_data g new key = (case new key of None \<Rightarrow> None | Some i \<Rightarrow> grid_files g i)"

text \<open>
  Notions for stating what the loop builds. \<open>files_ok\<close>: every identifier the document
  holds was handed out by GridFS. \<open>hits\<close>: the extensions of a field list that are
  present in the output directory and whose derived name is \<open>k\<close>. \<open>outdir_file\<close>: the
  content of the file of the output directory with an extension, if there is one.
  \<open>slot_holds\<close>: a field of the document is populated exactly when there is a content,
  and then refers to a stored file with that content.
\<close>

definition files_ok :: "gridfs \<Rightarrow> MongoFiles \<Rightarrow> bool" where
  "files_ok g new \<longleftrightarrow> (\<forall>k i. new k = Some i \<longrightarrow> i < grid_next g)"

definition hits :: "(string \<Rightarrow> string) \<Rightarrow> (string \<times> string \<times> string) list \<Rightarrow> string \<Rightarrow> string list" where
  "hits has_abiext fl k =
     filter (\<lambda>ext. has_abiext ext \<noteq> [] \<and> abi_fname ext = k)
       (map (\<lambda>(key, ext, form). ext) fl)"

definition outdir_file :: "(string \<Rightarrow> string) \<Rightarrow> ('s, 'm) abi_node_scheme \<Rightarrow> string \<Rightarrow> string option" where
  "outdir_file fs node ext =
     (if abi_has_abiext node ext \<noteq> [] then Some (fs (abi_has_abiext node ext)) else None)"

definition slot_holds :: "gridfs \<Rightarrow> MongoFiles \<Rightarrow> string \<Rightarrow> string option \<Rightarrow> bool" where
  "slot_holds g new key content \<longleftrightarrow>
     (new key = None) = (content = None) \<and> slot_data g new key = content"

subsection \<open>\<open>MSONDict\<close>\<close>

text \<open>
  \<open>MSONDict.to_mgobj\<close> hands the dictionary to \<open>MontyDecoder().process_decoded\<close> and
  returns what it returns. The decoder belongs to the package monty and not to this
  module, so it is a parameter here; the method adds no check of its own.
\<close>

definition MSONDict_to_mgobj :: "(json \<Rightarrow> error + 'obj) \<Rightarrow> json \<Rightarrow> error + 'obj" where
  "MSONDict_to_mgobj process_decoded self = process_decoded self"

subsection \<open>\<open>MongoTaskResults\<close> and \<open>MongoTask\<close>\<close>

record MongoTaskResults =
  initial_structure :: "json option"
  final_structure :: "json option"

text \<open>
  \<open>MongoTaskResults.from_task\<close>: the final structure starts as the initial one and is
  replaced by the structure of the GSR file when the task has \<open>open_gsr\<close>.
\<close>

definition MongoTaskResults_from_task :: "('s, 'm) abi_task_scheme \<Rightarrow> error + MongoTaskResults" where
  "MongoTaskResults_from_task task =
     (let initial = inp_structure (abi_input task);
          final = initial
      in case abi_open_gsr task of
           None \<Rightarrow> Inr \<lparr> initial_structure = Some initial, final_structure = Some final \<rparr>
         | Some (Inl e) \<Rightarrow> Inl e
         | Some (Inr gsr_structure) \<Rightarrow>
             Inr \<lparr> initial_structure = Some initial, final_structure = Some gsr_structure \<rparr>)"

record MongoTask = MongoEmbeddedNode +
  input :: "json option"
  input_str :: "string option"
  report :: "json option"
  num_warnings :: "int option"
  num_errors :: "int option"
  num_comments :: "int option"
  results :: "MongoTaskResults option"
  outfiles :: "MongoFiles option"

text \<open>The fields \<open>MongoTask\<close> adds to the node, none of them assigned.\<close>

definition MongoTask_unset ::
  "\<lparr> input :: json option, input_str :: string option, report :: json option,
     num_warnings :: int option, num_errors :: int option, num_comments :: int option,
     results :: MongoTaskResults option, outfiles :: MongoFiles option \<rparr>" where
  "MongoTask_unset = MongoTask.fields None None None None None None None None"

text \<open>
  \<open>MongoTask.from_task\<close>. The record is built by \<open>from_node\<close> with the four fields of
  the node and the others are assigned one after the other. \<open>getattr(report, a)\<close> on
  the \<open>None\<close> that \<open>get_event_report()\<close> may return raises \<open>AttributeError\<close>. An
  exception leaves the conversion; the files it stored before stay in GridFS and are
  not part of the result.
\<close>

definition MongoTask_from_task ::
  "('s \<Rightarrow> string) \<Rightarrow> (string \<Rightarrow> string) \<Rightarrow> ('s, 'm) abi_task_scheme \<Rightarrow> gridfs
   \<Rightarrow> error + MongoTask \<times> gridfs" where
  "MongoTask_from_task str fs task g =
     (let new = MongoEmbeddedNode_from_node str MongoTask_unset task;
          new = new\<lparr> input := Some (inp_as_dict (abi_input task)) \<rparr>;
          new = new\<lparr> input_str := Some (inp_str (abi_input task)) \<rparr>
      in case abi_event_report task of
           None \<Rightarrow> Inl AttributeError
         | Some rep \<Rightarrow>
             (let new = new\<lparr> num_errors := Some (rep_num_errors rep) \<rparr>;
                  new = new\<lparr> num_comments := Some (rep_num_comments rep) \<rparr>;
                  new = new\<lparr> num_warnings := Some (rep_num_warnings rep) \<rparr>;
                  new = new\<lparr> report := Some (rep_as_dict rep) \<rparr>
              in case MongoTaskResults_from_task task of
                   Inl e \<Rightarrow> Inl e
                 | Inr res \<Rightarrow>
                     (let new = new\<lparr> results := Some res \<rparr>
                      in case MongoFiles_from_node fs task g of
                           Inl e \<Rightarrow> Inl e
                         | Inr (files, g') \<Rightarrow>
                             Inr (new\<lparr> MongoTask.outfiles := Some files \<rparr>, g'))))"

subsection \<open>\<open>MongoWork\<close> and \<open>MongoFlow\<close>\<close>

record MongoWork = MongoEmbeddedNode +
  tasks :: "MongoTask list option"
  outfiles :: "MongoFiles option"

definition MongoWork_unset ::
  "\<lparr> tasks :: MongoTask list option, outfiles :: MongoFiles option \<rparr>" where
  "MongoWork_unset = MongoWork.fields None None"

text \<open>The list comprehension \<open>[MongoTask.from_task(task) for task in work]\<close>.\<close>

fun from_tasks ::
  "('s \<Rightarrow> string) \<Rightarrow> (string \<Rightarrow> string) \<Rightarrow> ('s, 'm) abi_task_scheme list \<Rightarrow> gridfs
   \<Rightarrow> error + MongoTask list \<times> gridfs" where
  "from_tasks str fs [] g = Inr ([], g)"
| "from_tasks str fs (task # rest) g =
     (case MongoTask_from_task str fs task g of
        Inl e \<Rightarrow> Inl e
      | Inr (doc, g1) \<Rightarrow>
          (case from_tasks str fs rest g1 of
             Inl e \<Rightarrow> Inl e
           | Inr (docs, g2) \<Rightarrow> Inr (doc # docs, g2)))"

definition MongoWork_from_work ::
  "('s \<Rightarrow> string) \<Rightarrow> (string \<Rightarrow> string) \<Rightarrow> ('s, 'm) abi_work_scheme \<Rightarrow> gridfs
   \<Rightarrow> error + MongoWork \<times> gridfs" where
  "MongoWork_from_work str fs work g =
     (let new = MongoEmbeddedNode_from_node str MongoWork_unset work
      in case from_tasks str fs (abi_tasks work) g of
           Inl e \<Rightarrow> Inl e
         | Inr (docs, g1) \<Rightarrow>
             (let new = new\<lparr> tasks := Some docs \<rparr>
              in case MongoFiles_from_node fs work g1 of
                   Inl e \<Rightarrow> Inl e
                 | Inr (files, g2) \<Rightarrow> Inr (new\<lparr> MongoWork.outfiles := Some files \<rparr>, g2)))"

record MongoFlow = MongoNode +
  works :: "MongoWork list option"
  outfiles :: "MongoFiles option"

definition MongoFlow_unset ::
  "\<lparr> works :: MongoWork list option, outfiles :: MongoFiles option \<rparr>" where
  "MongoFlow_unset = MongoFlow.fields None None"

text \<open>The list comprehension \<open>[MongoWork.from_work(work) for work in flow]\<close>.\<close>

fun from_works ::
  "('s \<Rightarrow> string) \<Rightarrow> (string \<Rightarrow> string) \<Rightarrow> ('s, 'm) abi_work_scheme list \<Rightarrow> gridfs
   \<Rightarrow> error + MongoWork list \<times> gridfs" where
  "from_works str fs [] g = Inr ([], g)"
| "from_works str fs (work # rest) g =
     (case MongoWork_from_work str fs work g of
        Inl e \<Rightarrow> Inl e
      | Inr (doc, g1) \<Rightarrow>
          (case from_works str fs rest g1 of
             Inl e \<Rightarrow> Inl e
           | Inr (docs, g2) \<Rightarrow> Inr (doc # docs, g2)))"

definition MongoFlow_from_flow ::
  "('s \<Rightarrow> string) \<Rightarrow> (string \<Rightarrow> string) \<Rightarrow> ('s, 'm) abi_flow_scheme \<Rightarrow> gridfs
   \<Rightarrow> error + MongoFlow \<times> gridfs" where
  "MongoFlow_from_flow str fs flow g =
     (let new = MongoNode_from_node str MongoFlow_unset flow
      in case from_works str fs (abi_works flow) g of
           Inl e \<Rightarrow> Inl e
         | Inr (docs, g1) \<Rightarrow>
             (let new = new\<lparr> works := Some docs \<rparr>
              in case MongoFiles_from_node fs flow g1 of
                   Inl e \<Rightarrow> Inl e
                 | Inr (files, g2) \<Rightarrow> Inr (new\<lparr> MongoFlow.outfiles := Some files \<rparr>, g2)))"

subsection \<open>Indexed lookup: \<open>__getitem__\<close>\<close>

text \<open>
  The argument of \<open>__getitem__\<close>: a string, an integer or a slice
  \<open>slice(start, stop, step)\<close>, each part of which may be \<open>None\<close>. The result is the
  value of a field of the document, an element of the embedded list or, for a slice,
  a list of elements.
\<close>

datatype key = KStr string | KInt int | KSlice "int option" "int option" "int option"

datatype ('f, 'e) item = Field 'f | Element 'e | Elements "'e list"

text \<open>A list field that was never assigned reads as the empty list.\<close>

definition list_field :: "'a list option \<Rightarrow> 'a list" where
  "list_field v = (case v of None \<Rightarrow> [] | Some xs \<Rightarrow> xs)"

text \<open>
  Indexing a list. An integer counts from the end when it is negative and raises
  \<open>IndexError\<close> out of range; a slice selects the indices Python's \<open>slice.indices\<close>
  gives and raises \<open>ValueError\<close> for a zero step; any other key raises \<open>TypeError\<close>.
\<close>

definition slice_indices :: "nat \<Rightarrow> int option \<Rightarrow> int option \<Rightarrow> int \<Rightarrow> int list" where
  "slice_indices len start stop step =
     (let n = int len in
      if 0 < step then
        (let lo = (case start of None \<Rightarrow> 0
                   | Some v \<Rightarrow> if v < 0 then max (v + n) 0 else min v n);
             hi = (case stop of None \<Rightarrow> n
                   | Some v \<Rightarrow> if v < 0 then max (v + n) 0 else min v n);
             cnt = (if lo < hi then (hi - lo - 1) div step + 1 else 0)
         in map (\<lambda>k. lo + int k * step) [0..<nat cnt])
      else
        (let hi = (case start of None \<Rightarrow> n - 1
                   | Some v \<Rightarrow> if v < 0 then max (v + n) (- 1) else min v (n - 1));
             lo = (case stop of None \<Rightarrow> - 1
                   | Some v \<Rightarrow> if v < 0 then max (v + n) (- 1) else min v (n - 1));
             cnt = (if lo < hi then (hi - lo - 1) div (- step) + 1 else 0)
         in map (\<lambda>k. hi + int k * step) [0..<nat cnt]))"

definition list_getitem :: "'e list \<Rightarrow> key \<Rightarrow> error + ('f, 'e) item" where
  "list_getitem xs name =
     (case name of
        KInt i \<Rightarrow>
          (let n = int (length xs); j = (if i < 0 then i + n else i)
           in if 0 \<le> j \<and> j < n then Inr (Element (xs ! nat j)) else Inl IndexError)
      | KSlice start stop step \<Rightarrow>
          (let st = (case step of None \<Rightarrow> 1 | Some v \<Rightarrow> v)
           in if st = 0 then Inl ValueError
              else Inr (Elements (map (\<lambda>i. xs ! nat i) (slice_indices (length xs) start stop st))))
      | KStr s \<Rightarrow> Inl TypeError)"

text \<open>
  \<open>MongoWork.__getitem__\<close> and \<open>MongoFlow.__getitem__\<close>. \<open>super_getitem\<close> is the
  \<open>__getitem__\<close> of the document class, the dictionary-style lookup of a field; it is
  tried first and only its \<open>KeyError\<close> is caught. The \<open>IndexError\<close> of the list is
  raised again.
\<close>

definition MongoWork_getitem ::
  "(MongoWork \<Rightarrow> key \<Rightarrow> error + 'f) \<Rightarrow> MongoWork \<Rightarrow> key \<Rightarrow> error + ('f, MongoTask) item" where
  "MongoWork_getitem super_getitem self name =
     (case super_getitem self name of
        Inr v \<Rightarrow> Inr (Field v)
      | Inl e \<Rightarrow> if e = KeyError then list_getitem (list_field (tasks self)) name else Inl e)"

definition MongoFlow_getitem ::
  "(MongoFlow \<Rightarrow> key \<Rightarrow> error + 'f) \<Rightarrow> MongoFlow \<Rightarrow> key \<Rightarrow> error + ('f, MongoWork) item" where
  "MongoFlow_getitem super_getitem self name =
     (case super_getitem self name of
        Inr v \<Rightarrow> Inr (Field v)
      | Inl e \<Rightarrow> if e = KeyError then list_getitem (list_field (works self)) name else Inl e)"

subsection \<open>Deleting the stored files\<close>

text \<open>
  \<open>MongoFiles.delete\<close>: for every field whose value has a \<open>delete\<close> method (a field that
  refers to a stored file), \<open>value.delete()\<close> is called. \<open>fails\<close> tells for which stored
  file the deletion raises. The state is the list of the identifiers whose deletion
  was called, in order, and GridFS; it is returned with the outcome, as what was done
  before an exception stays done. There is no \<open>try\<close> in the method.
\<close>

fun MongoFiles_delete_loop ::
  "(nat \<Rightarrow> bool) \<Rightarrow> MongoFiles \<Rightarrow> (string \<times> string \<times> string) list \<Rightarrow> nat list \<times> gridfs
   \<Rightarrow> (error + unit) \<times> nat list \<times> gridfs" where
  "MongoFiles_delete_loop fails self [] st = (Inr (), st)"
| "MongoFiles_delete_loop fails self ((key, ext, form) # rest) (tried, g) =
     (case self key of
        None \<Rightarrow> MongoFiles_delete_loop fails self rest (tried, g)
      | Some i \<Rightarrow>
          if fails i then (Inl GridFSError, tried @ [i], g)
          else MongoFiles_delete_loop fails self rest
                 (tried @ [i], g\<lparr> grid_files := (grid_files g)(i := None) \<rparr>))"

definition MongoFiles_delete ::
  "(nat \<Rightarrow> bool) \<Rightarrow> MongoFiles \<Rightarrow> nat list \<times> gridfs \<Rightarrow> (error + unit) \<times> nat list \<times> gridfs" where
  "MongoFiles_delete fails self st = MongoFiles_delete_loop fails self AbiFileFields st"

text \<open>
  \<open>node.outfiles.delete()\<close>: \<open>outfiles\<close> is not a required field, and the call on the
  \<open>None\<close> of an unassigned one raises \<open>AttributeError\<close>.
\<close>

definition outfiles_delete ::
  "(nat \<Rightarrow> bool) \<Rightarrow> MongoFiles option \<Rightarrow> nat list \<times> gridfs \<Rightarrow> (error + unit) \<times> nat list \<times> gridfs" where
  "outfiles_delete fails files st =
     (case files of None \<Rightarrow> (Inl AttributeError, st) | Some f \<Rightarrow> MongoFiles_delete fails f st)"

text \<open>
  Iterating a document yields the names of its fields, not the elements of a list it
  holds: the iterator of the document class runs over \<open>_fields_ordered\<close>, and neither
  \<open>MongoEmbeddedNode\<close> nor \<open>MongoWork\<close> defines another one. For a \<open>MongoWork\<close> these are
  the fields of the two class bodies.
\<close>

definition MongoWork_fields_ordered :: "string list" where
  "MongoWork_fields_ordered =
     [''node_id'', ''node_class'', ''status'', ''workdir'', ''tasks'', ''outfiles'']"

text \<open>
  The inner loop of \<open>MongoFlow.delete\<close>, \<open>for task in work: task.outfiles.delete()\<close>.
  The loop variable is a field name, a string, and a string has no attribute
  \<open>outfiles\<close>: the first pass through the body raises \<open>AttributeError\<close>.
\<close>

fun delete_tasks ::
  "string list \<Rightarrow> nat list \<times> gridfs \<Rightarrow> (error + unit) \<times> nat list \<times> gridfs" where
  "delete_tasks [] st = (Inr (), st)"
| "delete_tasks (task # rest) st = (Inl AttributeError, st)"

text \<open>
  The outer loop of \<open>MongoFlow.delete\<close>: for each work, \<open>work.outfiles.delete()\<close> and
  then the inner loop.
\<close>

fun delete_works ::
  "(nat \<Rightarrow> bool) \<Rightarrow> MongoWork list \<Rightarrow> nat list \<times> gridfs \<Rightarrow> (error + unit) \<times> nat list \<times> gridfs" where
  "delete_works fails [] st = (Inr (), st)"
| "delete_works fails (work # rest) st =
     (case outfiles_delete fails (MongoWork.outfiles work) st of
        (Inl e, st') \<Rightarrow> (Inl e, st')
      | (Inr u, st') \<Rightarrow>
          (case delete_tasks MongoWork_fields_ordered st' of
             (Inl e, st'') \<Rightarrow> (Inl e, st'')
           | (Inr u, st'') \<Rightarrow> delete_works fails rest st''))"

text \<open>
  \<open>MongoFlow.delete\<close>. The last statement, \<open>self.delete()\<close>, calls the method itself
  again. \<open>depth\<close> is the number of calls the interpreter still allows: at \<open>0\<close> the call
  raises \<open>RecursionError\<close>.
\<close>

fun MongoFlow_delete ::
  "nat \<Rightarrow> (nat \<Rightarrow> bool) \<Rightarrow> MongoFlow \<Rightarrow> nat list \<times> gridfs \<Rightarrow> (error + unit) \<times> nat list \<times> gridfs" where
  "MongoFlow_delete 0 fails self st = (Inl RecursionError, st)"
| "MongoFlow_delete (Suc depth) fails self st =
     (case delete_works fails (list_field (works self)) st of
        (Inl e, st') \<Rightarrow> (Inl e, st')
      | (Inr u, st') \<Rightarrow> MongoFlow_delete depth fails self st')"

text \<open>
  The identifiers of the stored files a flow document refers to, work by work: the
  files of the work, then those of its tasks. These are the files whose deletion the
  method is meant to call. \<open>stop_at\<close>: a list up to and including its first failing
  element.
\<close>

definition stored_ids :: "(string \<times> string \<times> string) list \<Rightarrow> MongoFiles \<Rightarrow> nat list" where
  "stored_ids fl self =
     concat (map (\<lambda>(key, ext, form). case self key of None \<Rightarrow> [] | Some i \<Rightarrow> [i]) fl)"

definition outfiles_ids :: "MongoFiles option \<Rightarrow> nat list" where
  "outfiles_ids files = (case files of None \<Rightarrow> [] | Some f \<Rightarrow> stored_ids AbiFileFields f)"

definition work_ids :: "MongoWork \<Rightarrow> nat list" where
  "work_ids work =
     outfiles_ids (MongoWork.outfiles work)
     @ concat (map (\<lambda>task. outfiles_ids (MongoTask.outfiles task)) (list_field (tasks work)))"

definition flow_ids :: "MongoFlow \<Rightarrow> nat list" where
  "flow_ids flow = concat (map work_ids (list_field (works flow)))"

definition stop_at :: "(nat \<Rightarrow> bool) \<Rightarrow> nat list \<Rightarrow> nat list" where
  "stop_at fails xs =
     takeWhile (\<lambda>i. \<not> fails i) xs @ take 1 (dropWhile (\<lambda>i. \<not> fails i) xs)"

text \<open>
  \<open>deletes fails ids step\<close>: the step calls the deletion of the identifiers \<open>ids\<close> in
  order up to the first that fails, and raises \<open>GridFSError\<close> exactly when one fails.
\<close>

definition deletes ::
  "(nat \<Rightarrow> bool) \<Rightarrow> nat list \<Rightarrow> (nat list \<times> gridfs \<Rightarrow> (error + unit) \<times> nat list \<times> gridfs) \<Rightarrow> bool" where
  "deletes fails ids step \<longleftrightarrow>
     (\<forall>tried g.
        fst (step (tried, g)) = (if \<exists>i \<in> set ids. fails i then Inl GridFSError else Inr ())
        \<and> fst (snd (step (tried, g))) = tried @ stop_at fails ids)"

subsection \<open>Required fields\<close>

text \<open>
  The fields declared with \<open>required=True\<close>, per class: whether each of them is
  assigned in a record.
\<close>

definition node_required :: "'z MongoNode_scheme \<Rightarrow> bool" where
  "node_required doc \<longleftrightarrow>
     MongoNode.node_id doc \<noteq> None \<and> MongoNode.node_class doc \<noteq> None
     \<and> MongoNode.status doc \<noteq> None \<and> MongoNode.workdir doc \<noteq> None"

definition embedded_node_required :: "'z MongoEmbeddedNode_scheme \<Rightarrow> bool" where
  "embedded_node_required doc \<longleftrightarrow>
     MongoEmbeddedNode.node_id doc \<noteq> None \<and> MongoEmbeddedNode.node_class doc \<noteq> None
     \<and> MongoEmbeddedNode.status doc \<noteq> None \<and> MongoEmbeddedNode.workdir doc \<noteq> None"

definition results_required :: "MongoTaskResults \<Rightarrow> bool" where
  "results_required res \<longleftrightarrow> initial_structure res \<noteq> None \<and> final_structure res \<noteq> None"

definition task_required :: "MongoTask \<Rightarrow> bool" where
  "task_required doc \<longleftrightarrow>
     embedded_node_required doc
     \<and> input doc \<noteq> None \<and> input_str doc \<noteq> None \<and> report doc \<noteq> None
     \<and> num_warnings doc \<noteq> None \<and> num_errors doc \<noteq> None \<and> num_comments doc \<noteq> None
     \<and> (case results doc of None \<Rightarrow> True | Some res \<Rightarrow> results_required res)"

definition work_required :: "MongoWork \<Rightarrow> bool" where
  "work_required doc \<longleftrightarrow>
     embedded_node_required doc \<and> tasks doc \<noteq> None
     \<and> list_all task_required (list_field (tasks doc))"

definition flow_required :: "MongoFlow \<Rightarrow> bool" where
  "flow_required doc \<longleftrightarrow>
     node_required doc \<and> works doc \<noteq> None
     \<and> list_all work_required (list_field (works doc))"

subsection \<open>A small flow\<close>

text \<open>
  Concrete objects on which the properties below are evaluated: a flow of one work
  with one task. The task has produced a GSR file and its main output and reports
  two warnings, no error and five comments; the work and the flow have neither files
  in their output directory nor the attribute \<open>output_file\<close>. The status is a string
  already, so \<open>str\<close> is the identity.
\<close>

definition empty_gridfs :: gridfs where
  "empty_gridfs = \<lparr> grid_files = Map.empty, grid_next = 0 \<rparr>"

definition example_fs :: "string \<Rightarrow> string" where
  "example_fs path = (if path = ''/flow/w0/t0/outdata/out_GSR.nc'' then ''gsr data'' else [])"

definition example_structure :: json where
  "example_structure =
     JDict [(''@module'', JStr ''pymatgen.core.structure''), (''@class'', JStr ''Structure'')]"

definition example_task :: "string abi_task" where
  "example_task =
     \<lparr> abi_class_name = ''ScfTask'', abi_node_id = 7, abi_status = ''Completed'',
       abi_workdir = ''/flow/w0/t0'',
       abi_has_abiext =
         (\<lambda>ext. if ext = ''GSR.nc'' then ''/flow/w0/t0/outdata/out_GSR.nc'' else []),
       abi_output_file = Some ''main output'',
       abi_input =
         \<lparr> inp_as_dict = JDict [(''ecut'', JInt 10)], inp_str = ''ecut 10'',
           inp_structure = example_structure \<rparr>,
       abi_event_report =
         Some \<lparr> rep_num_errors = 0, rep_num_comments = 5, rep_num_warnings = 2,
                rep_as_dict = JDict [] \<rparr>,
       abi_open_gsr = None \<rparr>"

definition example_work :: "string abi_work" where
  "example_work =
     \<lparr> abi_class_name = ''Work'', abi_node_id = 3, abi_status = ''Completed'',
       abi_workdir = ''/flow/w0'', abi_has_abiext = (\<lambda>ext. []), abi_output_file = None,
       abi_tasks = [example_task] \<rparr>"

definition example_flow :: "string abi_flow" where
  "example_flow =
     \<lparr> abi_class_name = ''Flow'', abi_node_id = 1, abi_status = ''Completed'',
       abi_workdir = ''/flow'', abi_has_abiext = (\<lambda>ext. []), abi_output_file = None,
       abi_works = [example_work] \<rparr>"


text \<open>
  A stored flow document of two works for \<open>MongoFlow.delete\<close>: the first work refers to
  the stored file 0 and its task to the files 1 and 2, the second work to the file 3.
\<close>

definition stored_task :: MongoTask where
  "stored_task =
     (MongoEmbeddedNode_from_node (\<lambda>s. s) MongoTask_unset example_task)
       \<lparr> MongoTask.outfiles := Some [''gsr'' \<mapsto> 1, ''output_file'' \<mapsto> 2] \<rparr>"

definition stored_work :: MongoWork where
  "stored_work =
     (MongoEmbeddedNode_from_node (\<lambda>s. s) MongoWork_unset example_work)
       \<lparr> tasks := Some [stored_task], MongoWork.outfiles := Some [''gsr'' \<mapsto> 0] \<rparr>"

definition stored_work' :: MongoWork where
  "stored_work' =
     (MongoEmbeddedNode_from_node (\<lambda>s. s) MongoWork_unset example_work)
       \<lparr> tasks := Some [], MongoWork.outfiles := Some [''ddb'' \<mapsto> 3] \<rparr>"

definition stored_flow :: MongoFlow where
  "stored_flow =
     (MongoNode_from_node (\<lambda>s. s) MongoFlow_unset example_flow)
       \<lparr> works := Some [stored_work, stored_work'], MongoFlow.outfiles := Some Map.empty \<rparr>"

definition stored_gridfs :: gridfs where
  "stored_gridfs =
     \<lparr> grid_files = [0 \<mapsto> ''a'', 1 \<mapsto> ''b'', 2 \<mapsto> ''c'', 3 \<mapsto> ''d''], grid_next = 4 \<rparr>"

text \<open>
  A dictionary-style lookup for the witnesses of \<open>__getitem__\<close>: it knows the field
  \<open>status\<close> and raises \<open>KeyError\<close> for every other key.
\<close>

definition status_lookup :: "'z MongoEmbeddedNode_scheme \<Rightarrow> key \<Rightarrow> error + string option" where
  "status_lookup doc name =
     (if name = KStr ''status'' then Inr (MongoEmbeddedNode.status doc) else Inl KeyError)"

definition flow_status_lookup :: "'z MongoNode_scheme \<Rightarrow> key \<Rightarrow> error + string option" where
  "flow_status_lookup doc name =
     (if name = KStr ''status'' then Inr (MongoNode.status doc) else Inl KeyError)"

section \<open>Properties\<close>

text \<open>
  Claim C2. For a node with an identifier, a status and a working directory,
  \<open>from_node\<close> (of \<open>MongoNode\<close> and of \<open>MongoEmbeddedNode\<close>) returns a record whose four
  fields read back the source values: \<open>node_id\<close> the node's identifier, \<open>node_class\<close>
  the name of its class, \<open>status\<close> the string form of its status, \<open>workdir\<close> its working
  directory.
\<close>

theorem from_node_reads_back:
  "MongoNode.node_id (MongoNode_from_node str unset node) = Some (abi_node_id node)
   \<and> MongoNode.node_class (MongoNode_from_node str unset node) = Some (abi_class_name node)
   \<and> MongoNode.status (MongoNode_from_node str unset node) = Some (str (abi_status node))
   \<and> MongoNode.workdir (MongoNode_from_node str unset node) = Some (abi_workdir node)
   \<and> MongoEmbeddedNode.node_id (MongoEmbeddedNode_from_node str unset' node)
       = Some (abi_node_id node)
   \<and> MongoEmbeddedNode.node_class (MongoEmbeddedNode_from_node str unset' node)
       = Some (abi_class_name node)
   \<and> MongoEmbeddedNode.status (MongoEmbeddedNode_from_node str unset' node)
       = Some (str (abi_status node))
   \<and> MongoEmbeddedNode.workdir (MongoEmbeddedNode_from_node str unset' node)
       = Some (abi_workdir node)"
  by (simp add: MongoNode_from_node_def MongoEmbeddedNode_from_node_def)

subsection \<open>The loop of \<open>MongoFiles.from_node\<close>\<close>

lemma fname_exts:
  "abi_fname ''GSR.nc'' = ''gsr''"
  "abi_fname ''HIST'' = ''hist''"
  "abi_fname ''PHBST.nc'' = ''phbst''"
  "abi_fname ''PHDOS.nc'' = ''phdos''"
  "abi_fname ''SIGRES.nc'' = ''sigres''"
  "abi_fname ''MDF.nc'' = ''mdf''"
  "abi_fname ''DDB'' = ''ddb''"
  "abi_fname ''abo'' = ''abo''"
  unfolding abi_fname_def by code_simp+

lemma loop_fails:
  "\<exists>(key, ext, form) \<in> set fl. has ext \<noteq> [] \<and> abi_fname ext \<notin> set (map fst AbiFileFields)
   \<Longrightarrow> from_node_loop fs has fl (new, g) = Inl AttributeError"
proof (induction fl arbitrary: new g)
  case Nil
  then show ?case by simp
next
  case (Cons a fl)
  obtain key ext form where a: "a = (key, ext, form)" by (cases a) auto
  show ?case
  proof (cases "has ext \<noteq> [] \<and> abi_fname ext \<notin> set (map fst AbiFileFields)")
    case True
    then show ?thesis by (simp add: a)
  next
    case False
    with Cons.prems have "\<exists>(key, ext, form) \<in> set fl. has ext \<noteq> []
        \<and> abi_fname ext \<notin> set (map fst AbiFileFields)"
      by (auto simp: a)
    then have "from_node_loop fs has fl (new', g') = Inl AttributeError" for new' g'
      by (rule Cons.IH)
    then show ?thesis
      by (simp add: a Let_def split: prod.splits)
  qed
qed

lemma loop_result:
  assumes "\<forall>(key, ext, form) \<in> set fl. has ext \<noteq> [] \<longrightarrow> abi_fname ext \<in> set (map fst AbiFileFields)"
    and "files_ok g new"
  shows "\<exists>new' g'. from_node_loop fs has fl (new, g) = Inr (new', g') \<and> files_ok g' new'
     \<and> (\<forall>k. (new' k = None \<longleftrightarrow> new k = None \<and> hits has fl k = [])
          \<and> slot_data g' new' k = (if hits has fl k = [] then slot_data g new k else Some (fs (has (last (hits has fl k))))))"
  using assms
proof (induction fl arbitrary: new g)
  case Nil
  then show ?case by (simp add: hits_def)
next
  case (Cons a fl)
  obtain key ext form where a: "a = (key, ext, form)" by (cases a) auto
  show ?case
  proof (cases "has ext = []")
    case True
    have h0: "hits has (a # fl) k = hits has fl k" for k
      using True by (simp add: hits_def a)
    have step0: "from_node_loop fs has (a # fl) (new, g) = from_node_loop fs has fl (new, g)"
      using True by (simp add: a)
    have p1: "\<forall>(key, ext, form) \<in> set fl. has ext \<noteq> [] \<longrightarrow> abi_fname ext \<in> set (map fst AbiFileFields)"
      using Cons.prems(1) by simp
    from Cons.IH[OF p1 Cons.prems(2)] show ?thesis
      unfolding h0 step0 by simp
  next
    case False
    let ?fname = "abi_fname ext"
    let ?i = "grid_next g"
    let ?g1 = "g\<lparr> grid_files := (grid_files g)(?i \<mapsto> fs (has ext)), grid_next := Suc ?i \<rparr>"
    let ?new1 = "new(?fname \<mapsto> ?i)"
    have ok1: "files_ok ?g1 ?new1" using Cons.prems(2) by (auto simp: files_ok_def less_Suc_eq)
    have sd: "slot_data ?g1 ?new1 k = (if ?fname = k then Some (fs (has ext)) else slot_data g new k)" for k
      using Cons.prems(2) by (auto simp: slot_data_def files_ok_def split: option.splits)
    have step: "from_node_loop fs has (a # fl) (new, g) = from_node_loop fs has fl (?new1, ?g1)"
      using False Cons.prems(1) by (simp add: a GridFSProxy_put_def Let_def)
    have p1: "\<forall>(key, ext, form) \<in> set fl. has ext \<noteq> [] \<longrightarrow> abi_fname ext \<in> set (map fst AbiFileFields)"
      using Cons.prems(1) by simp
    from Cons.IH[OF p1 ok1] obtain new' g' where
      r: "from_node_loop fs has fl (?new1, ?g1) = Inr (new', g')" "files_ok g' new'"
      and c: "\<And>k. (new' k = None \<longleftrightarrow> ?new1 k = None \<and> hits has fl k = [])
          \<and> slot_data g' new' k = (if hits has fl k = [] then slot_data ?g1 ?new1 k else Some (fs (has (last (hits has fl k)))))"
      by blast
    have h: "hits has (a # fl) k = (if ?fname = k then ext # hits has fl k else hits has fl k)" for k
      using False by (simp add: hits_def a)
    show ?thesis
      using r c by (auto simp: step h sd)
  qed
qed

lemma files_ok_empty: "files_ok g Map.empty"
  by (simp add: files_ok_def)

lemma abo_scan_ok:
  assumes "has ''abo'' = []"
  shows "\<forall>(key, ext, form) \<in> set AbiFileFields. has ext \<noteq> []
           \<longrightarrow> abi_fname ext \<in> set (map fst AbiFileFields)"
  using assms by (simp add: AbiFileFields_def fname_exts)

lemma hits_fields:
  assumes "has ''abo'' = []"
  shows "hits has AbiFileFields ''gsr'' = (if has ''GSR.nc'' \<noteq> [] then [''GSR.nc''] else [])"
    "hits has AbiFileFields ''hist'' = (if has ''HIST'' \<noteq> [] then [''HIST''] else [])"
    "hits has AbiFileFields ''phbst'' = (if has ''PHBST.nc'' \<noteq> [] then [''PHBST.nc''] else [])"
    "hits has AbiFileFields ''phdos'' = (if has ''PHDOS.nc'' \<noteq> [] then [''PHDOS.nc''] else [])"
    "hits has AbiFileFields ''sigres'' = (if has ''SIGRES.nc'' \<noteq> [] then [''SIGRES.nc''] else [])"
    "hits has AbiFileFields ''mdf'' = (if has ''MDF.nc'' \<noteq> [] then [''MDF.nc''] else [])"
    "hits has AbiFileFields ''ddb'' = (if has ''DDB'' \<noteq> [] then [''DDB''] else [])"
    "hits has AbiFileFields ''output_file'' = []"
  using assms by (simp_all add: hits_def AbiFileFields_def fname_exts)

lemma slot_holds_hit:
  assumes "(new k = None) = (hits has fl k = [])"
    and "slot_data g new k = (if hits has fl k = [] then None else Some (fs (has (last (hits has fl k)))))"
    and "hits has fl k = (if has ext \<noteq> [] then [ext] else [])"
    and "has = abi_has_abiext node"
  shows "slot_holds g new k (outdir_file fs node ext)"
  using assms by (simp add: slot_holds_def outdir_file_def)

lemma scan_AbiFileFields:
  assumes "abi_has_abiext node ''abo'' = []"
  shows "\<exists>new g'. from_node_loop fs (abi_has_abiext node) AbiFileFields (Map.empty, g) = Inr (new, g')
     \<and> files_ok g' new \<and> new ''output_file'' = None
     \<and> slot_holds g' new ''gsr'' (outdir_file fs node ''GSR.nc'')
     \<and> slot_holds g' new ''hist'' (outdir_file fs node ''HIST'')
     \<and> slot_holds g' new ''phbst'' (outdir_file fs node ''PHBST.nc'')
     \<and> slot_holds g' new ''phdos'' (outdir_file fs node ''PHDOS.nc'')
     \<and> slot_holds g' new ''sigres'' (outdir_file fs node ''SIGRES.nc'')
     \<and> slot_holds g' new ''mdf'' (outdir_file fs node ''MDF.nc'')
     \<and> slot_holds g' new ''ddb'' (outdir_file fs node ''DDB'')"
proof -
  let ?has = "abi_has_abiext node"
  from loop_result[where has="?has" and fl=AbiFileFields and g=g and new=Map.empty and fs=fs,
      OF abo_scan_ok[where has="?has", OF assms] files_ok_empty]
  obtain new g' where r: "from_node_loop fs ?has AbiFileFields (Map.empty, g) = Inr (new, g')"
    and ok: "files_ok g' new"
    and c: "\<And>k. (new k = None \<longleftrightarrow> Map.empty k = (None :: nat option) \<and> hits ?has AbiFileFields k = [])
          \<and> slot_data g' new k = (if hits ?has AbiFileFields k = [] then slot_data g Map.empty k
               else Some (fs (?has (last (hits ?has AbiFileFields k)))))"
    by blast
  have c1: "(new k = None) = (hits ?has AbiFileFields k = [])" for k
    using c[of k] by simp
  have c2: "slot_data g' new k = (if hits ?has AbiFileFields k = [] then None
               else Some (fs (?has (last (hits ?has AbiFileFields k)))))" for k
    using c[of k] by (simp add: slot_data_def)
  note h = hits_fields[where has="?has", OF assms]
  have o: "new ''output_file'' = None" using c1[of "''output_file''"] by (simp only: h)
  note s = slot_holds_hit[where has="?has" and fl=AbiFileFields and fs=fs and node=node, OF c1 c2 _ refl]
  from r ok o s[OF h(1)] s[OF h(2)] s[OF h(3)] s[OF h(4)] s[OF h(5)] s[OF h(6)] s[OF h(7)]
  show ?thesis by blast
qed

lemma abo_in_outdir:
  assumes "has ''abo'' \<noteq> []"
  shows "from_node_loop fs has AbiFileFields st = Inl AttributeError"
proof -
  have "\<exists>(key, ext, form) \<in> set AbiFileFields. has ext \<noteq> []
          \<and> abi_fname ext \<notin> set (map fst AbiFileFields)"
    using assms by (simp add: AbiFileFields_def fname_exts)
  then show ?thesis by (cases st) (simp add: loop_fails)
qed

lemma put_keeps:
  assumes "files_ok g new" and "GridFSProxy_put g data = (i, g')"
  shows "slot_data g' (new(k \<mapsto> i)) key = (if key = k then Some data else slot_data g new key)"
proof -
  have i: "i = grid_next g" and g': "grid_files g' = (grid_files g)(grid_next g \<mapsto> data)"
    using assms(2) by (auto simp: GridFSProxy_put_def)
  have "j \<noteq> grid_next g" if "new key = Some j" for j
    using assms(1) that unfolding files_ok_def by fastforce
  then show ?thesis
    by (auto simp: slot_data_def i g' split: option.splits)
qed

lemma put_slot_holds:
  assumes "files_ok g new" and "GridFSProxy_put g data = (i, g')" and "slot_holds g new key c"
    and "key \<noteq> k"
  shows "slot_holds g' (new(k \<mapsto> i)) key c"
  using assms(3,4) put_keeps[OF assms(1,2), of k key] by (simp add: slot_holds_def)

lemma MongoFiles_from_node_ok:
  assumes "abi_has_abiext node ''abo'' = []"
  shows "\<exists>new g'. MongoFiles_from_node fs node g = Inr (new, g')
     \<and> slot_holds g' new ''gsr'' (outdir_file fs node ''GSR.nc'')
     \<and> slot_holds g' new ''hist'' (outdir_file fs node ''HIST'')
     \<and> slot_holds g' new ''phbst'' (outdir_file fs node ''PHBST.nc'')
     \<and> slot_holds g' new ''phdos'' (outdir_file fs node ''PHDOS.nc'')
     \<and> slot_holds g' new ''sigres'' (outdir_file fs node ''SIGRES.nc'')
     \<and> slot_holds g' new ''mdf'' (outdir_file fs node ''MDF.nc'')
     \<and> slot_holds g' new ''ddb'' (outdir_file fs node ''DDB'')
     \<and> slot_holds g' new ''output_file'' (abi_output_file node)"
proof -
  from scan_AbiFileFields[OF assms, of fs g]
  obtain new g1 where r: "from_node_loop fs (abi_has_abiext node) AbiFileFields (Map.empty, g) = Inr (new, g1)"
    and ok: "files_ok g1 new" and o: "new ''output_file'' = None"
    and c: "slot_holds g1 new ''gsr'' (outdir_file fs node ''GSR.nc'')"
     "slot_holds g1 new ''hist'' (outdir_file fs node ''HIST'')"
     "slot_holds g1 new ''phbst'' (outdir_file fs node ''PHBST.nc'')"
     "slot_holds g1 new ''phdos'' (outdir_file fs node ''PHDOS.nc'')"
     "slot_holds g1 new ''sigres'' (outdir_file fs node ''SIGRES.nc'')"
     "slot_holds g1 new ''mdf'' (outdir_file fs node ''MDF.nc'')"
     "slot_holds g1 new ''ddb'' (outdir_file fs node ''DDB'')"
    by blast
  show ?thesis
  proof (cases "abi_output_file node")
    case None
    have res: "MongoFiles_from_node fs node g = Inr (new, g1)"
      using r None by (simp add: MongoFiles_from_node_def)
    have B: "slot_holds g1 new ''output_file'' (abi_output_file node)"
      by (simp add: slot_holds_def slot_data_def o None)
    from res c B show ?thesis by blast
  next
    case (Some data)
    obtain i g2 where p: "GridFSProxy_put g1 data = (i, g2)" by (cases "GridFSProxy_put g1 data")
    have res: "MongoFiles_from_node fs node g = Inr (new(''output_file'' \<mapsto> i), g2)"
      using r Some p by (simp add: MongoFiles_from_node_def)
    note k = put_slot_holds[OF ok p, where k="''output_file''"]
    have B: "slot_holds g2 (new(''output_file'' \<mapsto> i)) ''output_file'' (abi_output_file node)"
      using put_keeps[OF ok p, of "''output_file''" "''output_file''"]
      by (simp add: slot_holds_def Some)
    have A: "slot_holds g2 (new(''output_file'' \<mapsto> i)) ''gsr'' (outdir_file fs node ''GSR.nc'')"
     "slot_holds g2 (new(''output_file'' \<mapsto> i)) ''hist'' (outdir_file fs node ''HIST'')"
     "slot_holds g2 (new(''output_file'' \<mapsto> i)) ''phbst'' (outdir_file fs node ''PHBST.nc'')"
     "slot_holds g2 (new(''output_file'' \<mapsto> i)) ''phdos'' (outdir_file fs node ''PHDOS.nc'')"
     "slot_holds g2 (new(''output_file'' \<mapsto> i)) ''sigres'' (outdir_file fs node ''SIGRES.nc'')"
     "slot_holds g2 (new(''output_file'' \<mapsto> i)) ''mdf'' (outdir_file fs node ''MDF.nc'')"
     "slot_holds g2 (new(''output_file'' \<mapsto> i)) ''ddb'' (outdir_file fs node ''DDB'')"
      by (rule k, rule c, simp)+
    from res A B show ?thesis by blast
  qed
qed

lemma example_outdir:
  "abi_has_abiext example_task ''abo'' = []"
  "outdir_file example_fs example_task ''GSR.nc'' = Some ''gsr data''"
  "outdir_file example_fs example_task ''HIST'' = None"
  "abi_output_file example_task = Some ''main output''"
  "abi_has_abiext example_work ''abo'' = []"
  "abi_output_file example_work = None"
  "abi_has_abiext example_flow ''abo'' = []"
  "abi_output_file example_flow = None"
  by (simp_all add: example_task_def example_work_def example_flow_def example_fs_def outdir_file_def)

lemma from_node_returns:
  assumes "MongoFiles_from_node fs node g = Inr (new, g')"
  shows "abi_has_abiext node ''abo'' = []"
proof (rule ccontr)
  assume "abi_has_abiext node ''abo'' \<noteq> []"
  then have "from_node_loop fs (abi_has_abiext node) AbiFileFields (Map.empty, g) = Inl AttributeError"
    by (rule abo_in_outdir)
  with assms show False by (simp add: MongoFiles_from_node_def)
qed

subsection \<open>The fields of a file-set record\<close>

text \<open>
  Claim C3, as the spec states it: for a node whose output directory holds any subset
  of the known extensions (GSR.nc, HIST, PHBST.nc, PHDOS.nc, SIGRES.nc, MDF.nc, DDB,
  abo), \<open>MongoFiles.from_node\<close> populates exactly the fields of the extensions that are
  present. This fails for \<open>abo\<close>: the output directory of the example task holds no
  file with that extension, and the field \<open>output_file\<close> of its record is populated
  all the same, from the attribute \<open>output_file\<close> of the task.
\<close>

theorem output_file_not_from_outdir:
  "abi_has_abiext example_task ''abo'' = []
   \<and> (\<exists>new g'. MongoFiles_from_node example_fs example_task empty_gridfs = Inr (new, g')
         \<and> new ''output_file'' \<noteq> None)"
proof -
  from MongoFiles_from_node_ok[OF example_outdir(1), of example_fs empty_gridfs]
  obtain new g' where "MongoFiles_from_node example_fs example_task empty_gridfs = Inr (new, g')"
    and "slot_holds g' new ''output_file'' (abi_output_file example_task)"
    by blast
  then show ?thesis
    by (auto simp: slot_holds_def example_outdir)
qed

text \<open>
  Claim C3, amended: when the output directory holds no file with the extension
  \<open>abo\<close>, \<open>MongoFiles.from_node\<close> returns a record in which each of the seven fields
  \<open>gsr\<close>, \<open>hist\<close>, \<open>phbst\<close>, \<open>phdos\<close>, \<open>sigres\<close>, \<open>mdf\<close>, \<open>ddb\<close> is populated exactly
  when the output directory holds a file with its extension, and then holds the
  content of that file; the field \<open>output_file\<close> is populated exactly when the node
  has the attribute \<open>output_file\<close>, with what it reads. A file that is absent leaves its
  field empty and raises nothing.
\<close>

theorem from_node_slots:
  assumes "abi_has_abiext node ''abo'' = []"
  shows "\<exists>new g'. MongoFiles_from_node fs node g = Inr (new, g')
     \<and> slot_holds g' new ''gsr'' (outdir_file fs node ''GSR.nc'')
     \<and> slot_holds g' new ''hist'' (outdir_file fs node ''HIST'')
     \<and> slot_holds g' new ''phbst'' (outdir_file fs node ''PHBST.nc'')
     \<and> slot_holds g' new ''phdos'' (outdir_file fs node ''PHDOS.nc'')
     \<and> slot_holds g' new ''sigres'' (outdir_file fs node ''SIGRES.nc'')
     \<and> slot_holds g' new ''mdf'' (outdir_file fs node ''MDF.nc'')
     \<and> slot_holds g' new ''ddb'' (outdir_file fs node ''DDB'')
     \<and> slot_holds g' new ''output_file'' (abi_output_file node)"
  using assms by (rule MongoFiles_from_node_ok)

theorem from_node_slots_witness:
  "abi_has_abiext example_task ''abo'' = []
   \<and> (\<exists>new g'. MongoFiles_from_node example_fs example_task empty_gridfs = Inr (new, g')
         \<and> slot_holds g' new ''gsr'' (Some ''gsr data'')
         \<and> slot_holds g' new ''hist'' None
         \<and> slot_holds g' new ''output_file'' (Some ''main output''))"
proof -
  from from_node_slots[OF example_outdir(1), of example_fs empty_gridfs]
  show ?thesis unfolding example_outdir by blast
qed

text \<open>
  Claim C4. In every conversion \<open>MongoFiles.from_node\<close> completes, the field
  \<open>output_file\<close> holds what the attribute \<open>output_file\<close> of the node reads (and is
  empty for a node without it), and nothing of the output directory: no file with
  the extension \<open>abo\<close> was found there. Each of the other fields holds the file of the
  output directory with its extension.
\<close>

theorem output_file_from_accessor:
  assumes "MongoFiles_from_node fs node g = Inr (new, g')"
  shows "slot_holds g' new ''output_file'' (abi_output_file node)
     \<and> abi_has_abiext node ''abo'' = []
     \<and> slot_holds g' new ''gsr'' (outdir_file fs node ''GSR.nc'')
     \<and> slot_holds g' new ''hist'' (outdir_file fs node ''HIST'')
     \<and> slot_holds g' new ''phbst'' (outdir_file fs node ''PHBST.nc'')
     \<and> slot_holds g' new ''phdos'' (outdir_file fs node ''PHDOS.nc'')
     \<and> slot_holds g' new ''sigres'' (outdir_file fs node ''SIGRES.nc'')
     \<and> slot_holds g' new ''mdf'' (outdir_file fs node ''MDF.nc'')
     \<and> slot_holds g' new ''ddb'' (outdir_file fs node ''DDB'')"
proof -
  have abo: "abi_has_abiext node ''abo'' = []" using assms by (rule from_node_returns)
  from MongoFiles_from_node_ok[OF abo, of fs g] assms abo show ?thesis by auto
qed

theorem output_file_from_accessor_witness:
  "\<exists>new g'. MongoFiles_from_node example_fs example_task empty_gridfs = Inr (new, g')
     \<and> slot_holds g' new ''output_file'' (Some ''main output'')
     \<and> slot_holds g' new ''gsr'' (Some ''gsr data'')"
proof -
  from MongoFiles_from_node_ok[OF example_outdir(1), of example_fs empty_gridfs]
  obtain new g' where r: "MongoFiles_from_node example_fs example_task empty_gridfs = Inr (new, g')"
    by blast
  from output_file_from_accessor[OF r] r show ?thesis
    unfolding example_outdir by blast
qed





subsection \<open>Task records\<close>

lemma from_task_result:
  assumes "MongoTask_from_task str fs task g = Inr (new, g')"
  shows "\<exists>rep res files. abi_event_report task = Some rep
     \<and> MongoTaskResults_from_task task = Inr res
     \<and> MongoFiles_from_node fs task g = Inr (files, g')
     \<and> new = (MongoEmbeddedNode_from_node str MongoTask_unset task)
         \<lparr> input := Some (inp_as_dict (abi_input task)),
           input_str := Some (inp_str (abi_input task)),
           num_errors := Some (rep_num_errors rep),
           num_comments := Some (rep_num_comments rep),
           num_warnings := Some (rep_num_warnings rep),
           report := Some (rep_as_dict rep),
           results := Some res,
           MongoTask.outfiles := Some files \<rparr>"
  using assms
  by (auto simp: MongoTask_from_task_def Let_def split: option.splits sum.splits prod.splits)

lemma from_task_ok:
  assumes "abi_event_report task = Some rep" and "MongoTaskResults_from_task task = Inr res"
    and "abi_has_abiext task ''abo'' = []"
  shows "\<exists>new g'. MongoTask_from_task str fs task g = Inr (new, g')"
proof -
  from MongoFiles_from_node_ok[OF assms(3), of fs g]
  obtain files g' where "MongoFiles_from_node fs task g = Inr (files, g')" by blast
  then show ?thesis using assms(1,2)
    by (simp add: MongoTask_from_task_def Let_def)
qed

lemma example_results:
  "MongoTaskResults_from_task example_task
     = Inr \<lparr> initial_structure = Some example_structure, final_structure = Some example_structure \<rparr>"
  by (simp add: MongoTaskResults_from_task_def example_task_def)

lemma example_report:
  "abi_event_report example_task
     = Some \<lparr> rep_num_errors = 0, rep_num_comments = 5, rep_num_warnings = 2, rep_as_dict = JDict [] \<rparr>"
  by (simp add: example_task_def)

text \<open>
  Claim C5. Every record \<open>MongoTask.from_task\<close> returns has its three counters
  \<open>num_warnings\<close>, \<open>num_errors\<close> and \<open>num_comments\<close> assigned together, each with the
  value of the attribute of the same name of the event report of the task, as read
  during the conversion. For the example task, whose report counts two warnings, no
  error and five comments, the counters are 2, 0 and 5.
\<close>

theorem from_task_counters:
  assumes "MongoTask_from_task str fs task g = Inr (new, g')"
  shows "\<exists>rep. abi_event_report task = Some rep
     \<and> num_warnings new = Some (rep_num_warnings rep)
     \<and> num_errors new = Some (rep_num_errors rep)
     \<and> num_comments new = Some (rep_num_comments rep)"
proof -
  from from_task_result[OF assms] obtain rep res files where
    "abi_event_report task = Some rep"
    "new = (MongoEmbeddedNode_from_node str MongoTask_unset task)
         \<lparr> input := Some (inp_as_dict (abi_input task)),
           input_str := Some (inp_str (abi_input task)),
           num_errors := Some (rep_num_errors rep),
           num_comments := Some (rep_num_comments rep),
           num_warnings := Some (rep_num_warnings rep),
           report := Some (rep_as_dict rep),
           results := Some res,
           MongoTask.outfiles := Some files \<rparr>"
    by blast
  then show ?thesis by simp
qed

theorem from_task_counters_witness:
  "\<exists>new g'. MongoTask_from_task (\<lambda>s. s) example_fs example_task empty_gridfs = Inr (new, g')
     \<and> num_warnings new = Some 2 \<and> num_errors new = Some 0 \<and> num_comments new = Some 5"
proof -
  from from_task_ok[OF example_report example_results example_outdir(1)]
  obtain new g' where
    r: "MongoTask_from_task (\<lambda>s. s) example_fs example_task empty_gridfs = Inr (new, g')"
    by blast
  from from_task_counters[OF r] r show ?thesis
    by (auto simp: example_report)
qed

text \<open>
  Claim C6. For a task without \<open>open_gsr\<close>, that is, with no refined structure,
  \<open>MongoTaskResults.from_task\<close> returns a record whose final structure equals its
  initial structure, the structure of the input of the task.
\<close>

theorem final_equals_initial:
  assumes "abi_open_gsr task = None"
  shows "\<exists>res. MongoTaskResults_from_task task = Inr res
     \<and> initial_structure res = Some (inp_structure (abi_input task))
     \<and> final_structure res = initial_structure res"
  using assms by (simp add: MongoTaskResults_from_task_def Let_def)

theorem final_equals_initial_witness:
  "abi_open_gsr example_task = None
   \<and> (\<exists>res. MongoTaskResults_from_task example_task = Inr res
         \<and> initial_structure res = Some example_structure
         \<and> final_structure res = Some example_structure)"
proof -
  have h: "abi_open_gsr example_task = None" by (simp add: example_task_def)
  have i: "inp_structure (abi_input example_task) = example_structure" by (simp add: example_task_def)
  from final_equals_initial[OF h] h show ?thesis by (auto simp: i)
qed

subsection \<open>Required fields\<close>

lemma from_results_required:
  assumes "MongoTaskResults_from_task task = Inr res"
  shows "results_required res"
  using assms
  by (auto simp: MongoTaskResults_from_task_def Let_def results_required_def
      split: option.splits sum.splits)

lemma from_task_required:
  assumes "MongoTask_from_task str fs task g = Inr (new, g')"
  shows "task_required new"
proof -
  from from_task_result[OF assms] obtain rep res files where
    "abi_event_report task = Some rep" and
    r: "MongoTaskResults_from_task task = Inr res" and
    n: "new = (MongoEmbeddedNode_from_node str MongoTask_unset task)
         \<lparr> input := Some (inp_as_dict (abi_input task)),
           input_str := Some (inp_str (abi_input task)),
           num_errors := Some (rep_num_errors rep),
           num_comments := Some (rep_num_comments rep),
           num_warnings := Some (rep_num_warnings rep),
           report := Some (rep_as_dict rep),
           results := Some res,
           MongoTask.outfiles := Some files \<rparr>"
    by blast
  show ?thesis
    unfolding n using from_results_required[OF r]
    by (simp add: task_required_def embedded_node_required_def MongoEmbeddedNode_from_node_def)
qed

lemma from_tasks_required:
  "from_tasks str fs ts g = Inr (docs, g') \<Longrightarrow> list_all task_required docs"
proof (induction ts arbitrary: g docs)
  case Nil
  then show ?case by simp
next
  case (Cons t ts)
  from Cons.prems obtain doc g1 rest where
    a: "MongoTask_from_task str fs t g = Inr (doc, g1)"
    and b: "from_tasks str fs ts g1 = Inr (rest, g')" and c: "docs = doc # rest"
    by (auto split: sum.splits prod.splits)
  from from_task_required[OF a] Cons.IH[OF b] show ?case by (simp add: c)
qed

lemma from_work_required:
  assumes "MongoWork_from_work str fs work g = Inr (new, g')"
  shows "work_required new"
proof -
  from assms obtain docs g1 files where
    a: "from_tasks str fs (abi_tasks work) g = Inr (docs, g1)" and
    n: "new = (MongoEmbeddedNode_from_node str MongoWork_unset work)
          \<lparr> tasks := Some docs, MongoWork.outfiles := Some files \<rparr>"
    by (auto simp: MongoWork_from_work_def Let_def split: sum.splits prod.splits)
  show ?thesis
    unfolding n using from_tasks_required[OF a]
    by (simp add: work_required_def embedded_node_required_def MongoEmbeddedNode_from_node_def
        list_field_def)
qed

lemma from_works_required:
  "from_works str fs ws g = Inr (docs, g') \<Longrightarrow> list_all work_required docs"
proof (induction ws arbitrary: g docs)
  case Nil
  then show ?case by simp
next
  case (Cons w ws)
  from Cons.prems obtain doc g1 rest where
    a: "MongoWork_from_work str fs w g = Inr (doc, g1)"
    and b: "from_works str fs ws g1 = Inr (rest, g')" and c: "docs = doc # rest"
    by (auto split: sum.splits prod.splits)
  from from_work_required[OF a] Cons.IH[OF b] show ?case by (simp add: c)
qed

lemma from_flow_required:
  assumes "MongoFlow_from_flow str fs flow g = Inr (new, g')"
  shows "flow_required new"
proof -
  from assms obtain docs g1 files where
    a: "from_works str fs (abi_works flow) g = Inr (docs, g1)" and
    n: "new = (MongoNode_from_node str MongoFlow_unset flow)
          \<lparr> works := Some docs, MongoFlow.outfiles := Some files \<rparr>"
    by (auto simp: MongoFlow_from_flow_def Let_def split: sum.splits prod.splits)
  show ?thesis
    unfolding n using from_works_required[OF a]
    by (simp add: flow_required_def node_required_def MongoNode_from_node_def list_field_def)
qed

lemma example_flow_converts:
  "\<exists>new g'. MongoFlow_from_flow (\<lambda>s. s) example_fs example_flow empty_gridfs = Inr (new, g')"
proof -
  from from_task_ok[OF example_report example_results example_outdir(1)]
  obtain tdoc g1 where
    t: "MongoTask_from_task (\<lambda>s. s) example_fs example_task empty_gridfs = Inr (tdoc, g1)"
    by blast
  from MongoFiles_from_node_ok[OF example_outdir(5), of example_fs g1]
  obtain wfiles g2 where wf: "MongoFiles_from_node example_fs example_work g1 = Inr (wfiles, g2)"
    by blast
  have "abi_tasks example_work = [example_task]" by (simp add: example_work_def)
  then have "\<exists>wdoc. MongoWork_from_work (\<lambda>s. s) example_fs example_work empty_gridfs = Inr (wdoc, g2)"
    using t wf by (simp add: MongoWork_from_work_def Let_def)
  then obtain wdoc where
    w: "MongoWork_from_work (\<lambda>s. s) example_fs example_work empty_gridfs = Inr (wdoc, g2)" ..
  from MongoFiles_from_node_ok[OF example_outdir(7), of example_fs g2]
  obtain ffiles g3 where ff: "MongoFiles_from_node example_fs example_flow g2 = Inr (ffiles, g3)"
    by blast
  have "abi_works example_flow = [example_work]" by (simp add: example_flow_def)
  then show ?thesis
    using w ff by (simp add: MongoFlow_from_flow_def Let_def)
qed

text \<open>
  Claim C9, as the spec states it: constructing a record with a required field
  missing aborts. The conversions do construct such records: \<open>MongoTask.from_task\<close>
  first calls \<open>cls.from_node(task)\<close>, which builds a \<open>MongoTask\<close> from the four fields of
  the node alone, and \<open>MongoWork.from_work\<close> builds a \<open>MongoWork\<close> the same way. The
  record of the example task then has no \<open>input\<close>, that of the example work no \<open>tasks\<close>,
  and both are records the conversion goes on with.
\<close>

theorem constructed_without_required:
  "input (MongoEmbeddedNode_from_node (\<lambda>s. s) MongoTask_unset example_task) = None
   \<and> \<not> task_required (MongoEmbeddedNode_from_node (\<lambda>s. s) MongoTask_unset example_task)
   \<and> tasks (MongoEmbeddedNode_from_node (\<lambda>s. s) MongoWork_unset example_work) = None
   \<and> \<not> work_required (MongoEmbeddedNode_from_node (\<lambda>s. s) MongoWork_unset example_work)"
  by (simp add: MongoEmbeddedNode_from_node_def MongoTask_unset_def MongoWork_unset_def
      MongoTask.defs MongoWork.defs task_required_def work_required_def)

text \<open>
  Claim C9, amended: a record is constructed with the fields it is given and the
  others unset, and the conversions assign the remaining fields afterwards, so that
  every record \<open>from_task\<close>, \<open>from_work\<close> or \<open>from_flow\<close> returns has all its required
  fields assigned, down to the tasks of the works of a flow.
\<close>

theorem conversions_assign_required:
  "(MongoTask_from_task str fs task g = Inr (tdoc, g1) \<longrightarrow> task_required tdoc)
   \<and> (MongoWork_from_work str fs work g = Inr (wdoc, g2) \<longrightarrow> work_required wdoc)
   \<and> (MongoFlow_from_flow str fs flow g = Inr (fdoc, g3) \<longrightarrow> flow_required fdoc)"
  using from_task_required from_work_required from_flow_required by blast

theorem conversions_assign_required_witness:
  "\<exists>fdoc g'. MongoFlow_from_flow (\<lambda>s. s) example_fs example_flow empty_gridfs = Inr (fdoc, g')
     \<and> flow_required fdoc"
proof -
  from example_flow_converts obtain fdoc g' where
    r: "MongoFlow_from_flow (\<lambda>s. s) example_fs example_flow empty_gridfs = Inr (fdoc, g')"
    by blast
  from conversions_assign_required[where str="\<lambda>s. s" and fs=example_fs and g=empty_gridfs
      and flow=example_flow and fdoc=fdoc and ?g3.0=g'] r
  show ?thesis by blast
qed

subsection \<open>Indexed lookup\<close>

text \<open>
  Claim C8. \<open>__getitem__\<close> of a work record and of a flow record first tries the
  dictionary-style lookup of the document class. When that returns, its value is the
  result, whatever the embedded list holds under the key. Only when it raises
  \<open>KeyError\<close> is the embedded list (the tasks of a work, the works of a flow) indexed
  with the key; any other exception of the lookup is raised unchanged.
\<close>

theorem getitem_dictionary_first:
  "(super_w wdoc name = Inr v \<longrightarrow> MongoWork_getitem super_w wdoc name = Inr (Field v))
   \<and> (super_w wdoc name = Inl KeyError \<longrightarrow>
        MongoWork_getitem super_w wdoc name = list_getitem (list_field (tasks wdoc)) name)
   \<and> (super_w wdoc name = Inl e \<and> e \<noteq> KeyError \<longrightarrow>
        MongoWork_getitem super_w wdoc name = Inl e)
   \<and> (super_f fdoc name = Inr v' \<longrightarrow> MongoFlow_getitem super_f fdoc name = Inr (Field v'))
   \<and> (super_f fdoc name = Inl KeyError \<longrightarrow>
        MongoFlow_getitem super_f fdoc name = list_getitem (list_field (works fdoc)) name)
   \<and> (super_f fdoc name = Inl e \<and> e \<noteq> KeyError \<longrightarrow>
        MongoFlow_getitem super_f fdoc name = Inl e)"
  by (simp add: MongoWork_getitem_def MongoFlow_getitem_def)

lemma stored_lists:
  "list_field (tasks stored_work) = [stored_task]"
  "list_field (works stored_flow) = [stored_work, stored_work']"
  "MongoEmbeddedNode.status stored_work = Some ''Completed''"
  "MongoEmbeddedNode.node_id stored_work = Some 3"
  "MongoNode.status stored_flow = Some ''Completed''"
  by (simp_all add: stored_work_def stored_flow_def list_field_def MongoEmbeddedNode_from_node_def
      MongoNode_from_node_def example_work_def example_flow_def)

lemma list_getitem_examples:
  "list_getitem [a] (KInt 0) = Inr (Element a)"
  "list_getitem [a] (KInt (- 1)) = Inr (Element a)"
  "list_getitem [a] (KInt 1) = Inl IndexError"
  "list_getitem [a, b] (KInt 1) = Inr (Element b)"
  "list_getitem [a, b] (KSlice None None None) = Inr (Elements [a, b])"
  "list_getitem [a, b] (KSlice None None (Some (- 1))) = Inr (Elements [b, a])"
  "list_getitem [a] (KStr ''tasks'') = Inl TypeError"
  by (simp_all add: list_getitem_def slice_indices_def Let_def upt_rec)

theorem getitem_dictionary_first_witness:
  "MongoWork_getitem status_lookup stored_work (KStr ''status'') = Inr (Field (Some ''Completed''))
   \<and> MongoWork_getitem status_lookup stored_work (KInt 0) = Inr (Element stored_task)
   \<and> MongoWork_getitem status_lookup stored_work (KInt 1) = Inl IndexError
   \<and> MongoWork_getitem (\<lambda>doc name. Inr (MongoEmbeddedNode.node_id doc)) stored_work (KInt 0)
       = Inr (Field (Some 3))
   \<and> MongoWork_getitem (\<lambda>doc name. Inl TypeError) stored_work (KInt 0) = Inl TypeError
   \<and> MongoFlow_getitem flow_status_lookup stored_flow (KStr ''status'')
       = Inr (Field (Some ''Completed''))
   \<and> MongoFlow_getitem flow_status_lookup stored_flow (KInt 1) = Inr (Element stored_work')
   \<and> MongoFlow_getitem flow_status_lookup stored_flow (KSlice None None None)
       = Inr (Elements [stored_work, stored_work'])"
  using getitem_dictionary_first[where super_w=status_lookup and wdoc=stored_work
      and name="KStr ''status''" and v="Some ''Completed''"
      and super_f=flow_status_lookup and fdoc=stored_flow and v'="Some ''Completed''"]
    getitem_dictionary_first[where super_w=status_lookup and wdoc=stored_work and name="KInt 0"
      and super_f=flow_status_lookup and fdoc=stored_flow]
    getitem_dictionary_first[where super_w=status_lookup and wdoc=stored_work and name="KInt 1"
      and super_f=flow_status_lookup and fdoc=stored_flow]
    getitem_dictionary_first[where super_w="\<lambda>doc name. Inr (MongoEmbeddedNode.node_id doc)"
      and wdoc=stored_work and name="KInt 0" and v="Some 3"
      and super_f=flow_status_lookup and fdoc=stored_flow]
    getitem_dictionary_first[where super_w="\<lambda>doc name. Inl TypeError"
      and wdoc=stored_work and name="KInt 0" and e=TypeError
      and super_f=flow_status_lookup and fdoc=stored_flow]
    getitem_dictionary_first[where super_w=status_lookup and wdoc=stored_work
      and name="KSlice None None None"
      and super_f=flow_status_lookup and fdoc=stored_flow]
  by (simp add: status_lookup_def flow_status_lookup_def stored_lists list_getitem_examples)

subsection \<open>Deleting a flow record\<close>

lemma stop_at_Nil: "stop_at fails [] = []"
  by (simp add: stop_at_def)

lemma stop_at_Cons: "stop_at fails (i # xs) = (if fails i then [i] else i # stop_at fails xs)"
  by (simp add: stop_at_def)

lemma deletes_loop: "deletes fails (stored_ids fl self) (MongoFiles_delete_loop fails self fl)"
  unfolding deletes_def
proof (induction fl)
  case Nil
  then show ?case by (simp add: stored_ids_def stop_at_Nil)
next
  case (Cons a fl)
  obtain key ext form where a: "a = (key, ext, form)" by (cases a) auto
  have ids: "stored_ids (a # fl) self
      = (case self key of None \<Rightarrow> [] | Some i \<Rightarrow> [i]) @ stored_ids fl self"
    by (simp add: stored_ids_def a)
  show ?case
  proof (intro allI)
    fix tried g
    show "fst (MongoFiles_delete_loop fails self (a # fl) (tried, g))
            = (if \<exists>i \<in> set (stored_ids (a # fl) self). fails i then Inl GridFSError else Inr ())
        \<and> fst (snd (MongoFiles_delete_loop fails self (a # fl) (tried, g)))
            = tried @ stop_at fails (stored_ids (a # fl) self)"
    proof (cases "self key")
      case None
      then show ?thesis using Cons.IH by (simp add: a ids[unfolded a])
    next
      case (Some i)
      then show ?thesis using Cons.IH by (simp add: a ids[unfolded a] stop_at_Cons)
    qed
  qed
qed

lemma deletes_outfiles:
  "files \<noteq> None \<Longrightarrow> deletes fails (outfiles_ids files) (outfiles_delete fails files)"
  using deletes_loop[of fails AbiFileFields]
  by (auto simp: outfiles_ids_def outfiles_delete_def MongoFiles_delete_def deletes_def)

lemma task_loop_raises: "delete_tasks MongoWork_fields_ordered st = (Inl AttributeError, st)"
  by (simp add: MongoWork_fields_ordered_def)

lemma first_work_pass:
  assumes "MongoWork.outfiles work = Some files"
  shows "fst (delete_works fails (work # rest) (tried, g))
       = (if \<exists>i \<in> set (stored_ids AbiFileFields files). fails i
          then Inl GridFSError else Inl AttributeError)"
    and "fst (snd (delete_works fails (work # rest) (tried, g)))
       = tried @ stop_at fails (stored_ids AbiFileFields files)"
proof -
  obtain r tried' g' where
    p: "outfiles_delete fails (MongoWork.outfiles work) (tried, g) = (r, tried', g')"
    by (cases "outfiles_delete fails (MongoWork.outfiles work) (tried, g)") auto
  have ids: "outfiles_ids (MongoWork.outfiles work) = stored_ids AbiFileFields files"
    by (simp add: outfiles_ids_def assms)
  have "deletes fails (stored_ids AbiFileFields files)
          (outfiles_delete fails (MongoWork.outfiles work))"
    unfolding ids[symmetric] by (rule deletes_outfiles) (simp add: assms)
  with p have r: "r = (if \<exists>i \<in> set (stored_ids AbiFileFields files). fails i
                       then Inl GridFSError else Inr ())"
    and t: "tried' = tried @ stop_at fails (stored_ids AbiFileFields files)"
    unfolding deletes_def by (metis fst_conv, metis fst_conv snd_conv)
  show "fst (delete_works fails (work # rest) (tried, g))
       = (if \<exists>i \<in> set (stored_ids AbiFileFields files). fails i
          then Inl GridFSError else Inl AttributeError)"
    by (simp add: p r task_loop_raises)
  show "fst (snd (delete_works fails (work # rest) (tried, g)))
       = tried @ stop_at fails (stored_ids AbiFileFields files)"
    by (simp add: p r t task_loop_raises)
qed

lemma first_work_raises:
  assumes "MongoWork.outfiles work = Some files"
  shows "\<exists>e st'. delete_works fails (work # rest) st = (Inl e, st')"
proof -
  obtain tried g where st: "st = (tried, g)" by (cases st)
  obtain r st' where p: "delete_works fails (work # rest) (tried, g) = (r, st')"
    by (cases "delete_works fails (work # rest) (tried, g)")
  from first_work_pass(1)[OF assms, of fails rest tried g] p
  have "r = Inl GridFSError \<or> r = Inl AttributeError" by (simp split: if_splits)
  with p st show ?thesis by auto
qed

text \<open>
  \<open>MongoFlow.delete\<close> never returns normally: its last statement calls the method
  again, until a deletion raises or the interpreter stops the recursion.
\<close>

lemma flow_delete_never_returns: "fst (MongoFlow_delete depth fails flow st) \<noteq> Inr ()"
proof (induction depth arbitrary: st)
  case 0
  then show ?case by simp
next
  case (Suc depth)
  then show ?case by (auto split: prod.splits sum.splits)
qed

lemma stored_flow_ids:
  "flow_ids stored_flow = [0, 1, 2, 3]"
  "list_field (works stored_flow) = [stored_work, stored_work']"
  "MongoWork.outfiles stored_work = Some [''gsr'' \<mapsto> 0]"
  "stored_ids AbiFileFields [''gsr'' \<mapsto> 0] = [0]"
  by (simp_all add: flow_ids_def work_ids_def
      outfiles_ids_def stored_ids_def AbiFileFields_def list_field_def
      stored_flow_def stored_work_def stored_work'_def stored_task_def)

text \<open>
  Claim C1. Deleting a flow record is to call the deletion of the stored file of
  every populated field of every work and every task, also when one of the deletions
  fails. The code does not do that. For a flow record whose first work has its
  file-set record, \<open>MongoFlow.delete\<close> calls the deletion of the files of that work, up
  to the first that fails, and raises: the \<open>GridFSError\<close> of the failing deletion or,
  when none fails, the \<open>AttributeError\<close> of the inner loop, whose variable is a field
  name and not a task. The deletion of no file of a task and of no file of a later
  work is called. In the stored flow, which refers to the files 0 to 3, the file 0 is
  the only one whose deletion is called, whether that deletion fails or not.
\<close>

theorem delete_raises_after_first_work:
  assumes "list_field (works flow) = work # rest"
    and "MongoWork.outfiles work = Some files"
  shows "fst (MongoFlow_delete (Suc depth) fails flow (tried, g))
       = (if \<exists>i \<in> set (stored_ids AbiFileFields files). fails i
          then Inl GridFSError else Inl AttributeError)
     \<and> fst (snd (MongoFlow_delete (Suc depth) fails flow (tried, g)))
       = tried @ stop_at fails (stored_ids AbiFileFields files)"
proof -
  from first_work_raises[OF assms(2), of fails rest "(tried, g)"]
  obtain e st' where p: "delete_works fails (work # rest) (tried, g) = (Inl e, st')"
    by blast
  have m: "MongoFlow_delete (Suc depth) fails flow (tried, g)
      = delete_works fails (work # rest) (tried, g)"
    by (simp add: assms(1) p del: delete_works.simps)
  show ?thesis
    unfolding m using first_work_pass[OF assms(2), of fails rest tried g] by simp
qed

theorem delete_raises_after_first_work_witness:
  "flow_ids stored_flow = [0, 1, 2, 3]
   \<and> fst (MongoFlow_delete 1000 (\<lambda>i. False) stored_flow ([], stored_gridfs)) = Inl AttributeError
   \<and> fst (snd (MongoFlow_delete 1000 (\<lambda>i. False) stored_flow ([], stored_gridfs))) = [0]
   \<and> fst (MongoFlow_delete 1000 (\<lambda>i. i = 0) stored_flow ([], stored_gridfs)) = Inl GridFSError
   \<and> fst (snd (MongoFlow_delete 1000 (\<lambda>i. i = 0) stored_flow ([], stored_gridfs))) = [0]"
proof -
  have n: "(1000::nat) = Suc 999" by simp
  from delete_raises_after_first_work[OF stored_flow_ids(2) stored_flow_ids(3),
      of 999 "\<lambda>i. False" "[]" stored_gridfs]
    delete_raises_after_first_work[OF stored_flow_ids(2) stored_flow_ids(3),
      of 999 "\<lambda>i. i = 0" "[]" stored_gridfs]
  show ?thesis
    unfolding n by (simp add: stored_flow_ids stop_at_Cons stop_at_Nil)
qed

end
